theory Spec2Isabelle
  imports Main
begin

section \<open>JavaScript string primitives used by the audio pipeline\<close>

text \<open>
  Strings are modelled as \<open>string\<close> (lists of 8-bit characters). The text the
  program inspects (file names, extensions, ffmpeg arguments, ffmpeg log lines) is
  ASCII; the few non-ASCII literals of the source (the marker for an unknown metadata
  field, log messages) are written as their UTF-8 bytes.
\<close>

definition utf8 :: "nat list \<Rightarrow> string" where
  "utf8 bs = map char_of bs"

text \<open>\<open>String.prototype.toLowerCase\<close>, on the ASCII letters.\<close>

definition lowerChar :: "char \<Rightarrow> char" where
  "lowerChar c =
     (let n = (of_char c :: nat) in if 65 \<le> n \<and> n \<le> 90 then char_of (n + 32) else c)"

definition toLowerCase :: "string \<Rightarrow> string" where
  "toLowerCase s = map lowerChar s"

text \<open>\<open>s.lastIndexOf(c)\<close>: the index of the last occurrence of \<open>c\<close>, or \<open>-1\<close>.\<close>

fun lastIndexOf :: "char \<Rightarrow> string \<Rightarrow> int" where
  "lastIndexOf c [] = - 1"
| "lastIndexOf c (x # xs) =
     (let r = lastIndexOf c xs in
      if 0 \<le> r then r + 1 else if x = c then 0 else - 1)"

text \<open>
  \<open>s.substring(start)\<close>: a negative start counts as 0 and a start beyond the end as
  the length, which is what \<open>nat\<close> and \<open>drop\<close> do.
\<close>

definition substring :: "int \<Rightarrow> string \<Rightarrow> string" where
  "substring start s = drop (nat start) s"

text \<open>\<open>s.startsWith(p)\<close>.\<close>

definition startsWith :: "string \<Rightarrow> string \<Rightarrow> bool" where
  "startsWith p s = (take (length p) s = p)"

text \<open>A string is truthy in JavaScript exactly when it is not empty.\<close>

definition truthy :: "string \<Rightarrow> bool" where
  "truthy s = (s \<noteq> [])"

section \<open>file-handler.js: extensions and the audio-file test\<close>

text \<open>The two fields of a browser \<open>File\<close> that the modelled functions read.\<close>

record jsfile =
  name :: string
  type :: string

text \<open>
  \<open>getFileExtension(filename)\<close>:
  \<open>filename.substring(filename.lastIndexOf('.') + 1).toLowerCase()\<close>.
\<close>

definition getFileExtension :: "string \<Rightarrow> string" where
  "getFileExtension filename =
     toLowerCase (substring (lastIndexOf (CHR ''.'') filename + 1) filename)"

definition validExtensions :: "string list" where
  "validExtensions = [''mp3'', ''wav'', ''m4a'', ''aac'', ''ogg'', ''flac'']"

text \<open>\<open>isAudioFile(file)\<close>: a supported extension, or a MIME type under \<open>audio/\<close>.\<close>

definition isAudioFile :: "jsfile \<Rightarrow> bool" where
  "isAudioFile f =
     (let ext = toLowerCase (getFileExtension (name f));
          ty = startsWith ''audio/'' (type f)
      in ext \<in> set validExtensions \<or> ty)"

section \<open>A backtracking matcher for the regular expressions of the source\<close>

text \<open>
  The regular expressions of the source use literals, the digit class (\<open>\d\<close>,
  \<open>[0-9]\<close>), a negated class, concatenation, alternation, greedy \<open>+\<close> and
  \<open>?\<close>, and the end anchor. \<open>matches r s\<close> lists, in the order a backtracking
  matcher tries them, the remainders of \<open>s\<close> after a match of \<open>r\<close> at its start.
\<close>

datatype regex =
    Lit string
  | Digit
  | NoneOf string
  | Seq regex regex
  | Alt regex regex
  | Plus regex
  | Opt regex
  | Eos

fun stripPrefix :: "string \<Rightarrow> string \<Rightarrow> string option" where
  "stripPrefix [] s = Some s"
| "stripPrefix (c # l) [] = None"
| "stripPrefix (c # l) (x # s) = (if c = x then stripPrefix l s else None)"

definition isDigit :: "char \<Rightarrow> bool" where
  "isDigit c = (c \<in> set ''0123456789'')"

text \<open>
  Greedy repetition: after one match of the body, as many further ones as possible are
  tried before stopping. An iteration that consumes nothing ends the repetition. The
  counter bounds the number of further iterations by the length of the text.
\<close>

fun plusLoop :: "(string \<Rightarrow> string list) \<Rightarrow> nat \<Rightarrow> string \<Rightarrow> string list" where
  "plusLoop m 0 s = m s"
| "plusLoop m (Suc n) s =
     concat (map (\<lambda>r. if length r < length s then plusLoop m n r @ [r] else [r]) (m s))"

primrec matches :: "regex \<Rightarrow> string \<Rightarrow> string list" where
  "matches (Lit l) s = (case stripPrefix l s of None \<Rightarrow> [] | Some r \<Rightarrow> [r])"
| "matches Digit s = (case s of [] \<Rightarrow> [] | c # r \<Rightarrow> if isDigit c then [r] else [])"
| "matches (NoneOf cs) s = (case s of [] \<Rightarrow> [] | c # r \<Rightarrow> if c \<in> set cs then [] else [r])"
| "matches (Seq a b) s = concat (map (matches b) (matches a s))"
| "matches (Alt a b) s = matches a s @ matches b s"
| "matches (Plus a) s = plusLoop (matches a) (length s) s"
| "matches (Opt a) s = matches a s @ [s]"
| "matches Eos s = (if s = [] then [s] else [])"

text \<open>
  A pattern of the shape \<open>/pre(grp)post/\<close>, tried at the start of \<open>s\<close>: the text
  of capture group 1 in the first successful match.
\<close>

definition matchGroupAt :: "regex \<Rightarrow> regex \<Rightarrow> regex \<Rightarrow> string \<Rightarrow> string option" where
  "matchGroupAt pre grp post s =
     (case concat (map (\<lambda>r1. concat (map (\<lambda>r2. if matches post r2 = [] then []
                                                   else [take (length r1 - length r2) r1])
                                          (matches grp r1)))
                       (matches pre s)) of
        [] \<Rightarrow> None
      | g # _ \<Rightarrow> Some g)"

text \<open>
  \<open>s.match(/pre(grp)post/)\<close> without the \<open>g\<close> flag: the leftmost position with
  a match wins; \<open>None\<close> is the \<open>null\<close> of no match, \<open>Some g\<close> gives \<open>[1]\<close>.
\<close>

fun matchGroup :: "regex \<Rightarrow> regex \<Rightarrow> regex \<Rightarrow> string \<Rightarrow> string option" where
  "matchGroup pre grp post [] = matchGroupAt pre grp post []"
| "matchGroup pre grp post (c # t) =
     (case matchGroupAt pre grp post (c # t) of
        Some g \<Rightarrow> Some g
      | None \<Rightarrow> matchGroup pre grp post t)"

text \<open>
  \<open>name.replace(/\.[^/.]+$/, '')\<close>: the leftmost match of the pattern, which ends at
  the end of the string, is removed; without a match the string is unchanged.
\<close>

fun removeExtension :: "string \<Rightarrow> string" where
  "removeExtension [] = []"
| "removeExtension (c # t) =
     (if matches (Seq (Lit ''.'') (Seq (Plus (NoneOf ''/.'')) Eos)) (c # t) \<noteq> [] then []
      else c # removeExtension t)"

section \<open>parseMetadata (file-handler.js and ffmpeg-utils.js, the same text in both)\<close>

record metadata =
  duration :: string
  sampleRate :: string
  channels :: string
  bitrate :: string

text \<open>The marker of an unknown field, the two-character literal of the source in UTF-8.\<close>

definition unknown :: string where
  "unknown = utf8 [0xE6, 0x9C, 0xAA, 0xE7, 0x9F, 0xA5]"

text \<open>\<open>logs.match(/Duration: ([0-9][0-9]:[0-9][0-9]:[0-9][0-9]\.[0-9]+)/)\<close>\<close>

definition durationMatch :: "string \<Rightarrow> string option" where
  "durationMatch logs =
     matchGroup (Lit ''Duration: '')
       (Seq Digit (Seq Digit (Seq (Lit '':'') (Seq Digit (Seq Digit (Seq (Lit '':'')
          (Seq Digit (Seq Digit (Seq (Lit ''.'') (Plus Digit))))))))))
       (Lit []) logs"

text \<open>\<open>logs.match(/(\d+) Hz/)\<close>\<close>

definition sampleRateMatch :: "string \<Rightarrow> string option" where
  "sampleRateMatch logs = matchGroup (Lit []) (Plus Digit) (Lit '' Hz'') logs"

text \<open>\<open>logs.match(/(mono|stereo|\d+ channels)/)\<close>\<close>

definition channelsMatch :: "string \<Rightarrow> string option" where
  "channelsMatch logs =
     matchGroup (Lit [])
       (Alt (Lit ''mono'') (Alt (Lit ''stereo'') (Seq (Plus Digit) (Lit '' channels''))))
       (Lit []) logs"

text \<open>\<open>logs.match(/(\d+(\.\d+)?) kbps/)\<close>; the inner group 2 is not read.\<close>

definition bitrateMatch :: "string \<Rightarrow> string option" where
  "bitrateMatch logs =
     matchGroup (Lit []) (Seq (Plus Digit) (Opt (Seq (Lit ''.'') (Plus Digit))))
       (Lit '' kbps'') logs"

text \<open>The test \<open>m && m[1]\<close> of the source: a match whose group 1 is truthy.\<close>

definition matched :: "string option \<Rightarrow> bool" where
  "matched m = (case m of None \<Rightarrow> False | Some g \<Rightarrow> truthy g)"

definition parseMetadata :: "string \<Rightarrow> metadata" where
  "parseMetadata logs =
     (let metadata = \<lparr>duration = unknown, sampleRate = unknown,
                       channels = unknown, bitrate = unknown\<rparr>;
          metadata = (if matched (durationMatch logs)
                      then metadata\<lparr>duration := the (durationMatch logs)\<rparr> else metadata);
          metadata = (if matched (sampleRateMatch logs)
                      then metadata\<lparr>sampleRate := the (sampleRateMatch logs) @ '' Hz''\<rparr>
                      else metadata);
          metadata = (if matched (channelsMatch logs)
                      then metadata\<lparr>channels := the (channelsMatch logs)\<rparr> else metadata);
          metadata = (if matched (bitrateMatch logs)
                      then metadata\<lparr>bitrate := the (bitrateMatch logs) @ '' kbps''\<rparr>
                      else metadata)
      in metadata)"

section \<open>The codec engine and the page, as the pipeline sees them\<close>

text \<open>
  The ffmpeg instance, \<open>fetchFile\<close>, \<open>URL.createObjectURL\<close>, the \<open>log\<close> function
  and the log element \<open>logEl\<close> are not part of the modelled files. They are parameters:
  \<open>'w\<close> is the state of the engine workspace and of the page together, and every
  operation maps a state to an outcome and the next state. An operation that rejects
  returns the error it rejects with; it may still have changed the state.
\<close>

type_synonym bytes = "nat list"

datatype jserror = TypeError string | Error string

fun message :: "jserror \<Rightarrow> string" where
  "message (TypeError m) = m"
| "message (Error m) = m"

record blob =
  blob_data :: bytes
  blob_type :: string

record 'w env =
  isLoaded :: "'w \<Rightarrow> bool"
  fetchFile :: "jsfile \<Rightarrow> jserror + bytes"
  writeFile :: "string \<Rightarrow> bytes \<Rightarrow> 'w \<Rightarrow> jserror option \<times> 'w"
  exec :: "string list \<Rightarrow> 'w \<Rightarrow> jserror option \<times> 'w"
  readFile :: "string \<Rightarrow> 'w \<Rightarrow> (jserror + bytes) \<times> 'w"
  deleteFile :: "string \<Rightarrow> 'w \<Rightarrow> jserror option \<times> 'w"
  createObjectURL :: "blob \<Rightarrow> 'w \<Rightarrow> string \<times> 'w"
  log :: "string \<Rightarrow> 'w \<Rightarrow> 'w"
  innerText :: "'w \<Rightarrow> string"

text \<open>
  The format table \<open>formatConfig\<close> and the four form controls read by
  \<open>compressSingleFile\<close> are globals of the page; they are parameters too. A profile has
  the three fields the pipeline reads.
\<close>

record profile =
  ext :: string
  codec :: string
  supportsBitrate :: bool

type_synonym formatConfig = "string \<rightharpoonup> profile"

record controls =
  outputFormat :: string
  outputChannels :: string
  outputSamplerate :: string
  outputBitrate :: string

text \<open>The \<open>options\<close> argument of \<open>convertAudioFormat\<close>; \<open>None\<close> is an absent field.\<close>

record options =
  opt_channels :: "string option"
  opt_samplerate :: "string option"
  opt_bitrate :: "string option"
  opt_compressionLevel :: "string option"

definition truthyOpt :: "string option \<Rightarrow> bool" where
  "truthyOpt v = (case v of None \<Rightarrow> False | Some s \<Rightarrow> truthy s)"

record result =
  blob :: blob
  url :: string
  filename :: string

section \<open>audio-process.js: one conversion job\<close>

text \<open>The buffer names of a job (lines 12 to 15 and 143 to 146).\<close>

definition inputName :: "jsfile \<Rightarrow> string" where
  "inputName f = ''input.'' @ getFileExtension (name f)"

definition outputName :: "profile \<Rightarrow> string" where
  "outputName format = ''output.'' @ ext format"

text \<open>The command of \<open>compressSingleFile\<close> (lines 21 to 46).\<close>

definition compressCommand :: "controls \<Rightarrow> profile \<Rightarrow> string \<Rightarrow> string \<Rightarrow> string list" where
  "compressCommand ui format inName outName =
     (let command = [''-i'', inName];
          ac = outputChannels ui;
          command = (if truthy ac then command @ [''-ac'', ac] else command);
          ar = outputSamplerate ui;
          command = (if truthy ar then command @ [''-ar'', ar] else command);
          command = command @ [''-acodec'', codec format];
          ba = outputBitrate ui;
          command = (if truthy ba \<and> supportsBitrate format
                     then command @ [''-b:a'', ba] else command);
          command = (if outputFormat ui = ''flac''
                     then command @ [''-compression_level'', ''5'']
                     else if outputFormat ui = ''aac''
                     then command @ [''-strict'', ''experimental'']
                     else command);
          command = command @ [outName]
      in command)"

text \<open>The command of \<open>convertAudioFormat\<close> (lines 153 to 172).\<close>

definition convertCommand :: "string \<Rightarrow> options \<Rightarrow> profile \<Rightarrow> string \<Rightarrow> string \<Rightarrow> string list" where
  "convertCommand targetFormat opts config inName outName =
     (let command = [''-i'', inName];
          command = (if truthyOpt (opt_channels opts)
                     then command @ [''-ac'', the (opt_channels opts)] else command);
          command = (if truthyOpt (opt_samplerate opts)
                     then command @ [''-ar'', the (opt_samplerate opts)] else command);
          command = (if truthyOpt (opt_bitrate opts) \<and> supportsBitrate config
                     then command @ [''-b:a'', the (opt_bitrate opts)] else command);
          command = command @ [''-acodec'', codec config];
          command = (if targetFormat = ''flac''
                     then command @ [''-compression_level'',
                            (if truthyOpt (opt_compressionLevel opts)
                             then the (opt_compressionLevel opts) else ''5'')]
                     else if targetFormat = ''aac''
                     then command @ [''-strict'', ''experimental'']
                     else command);
          command = command @ [outName]
      in command)"

text \<open>The MIME type looked up from the extension, \<open>audio/*\<close> when it is not listed.\<close>

definition mimeType :: "string \<Rightarrow> string" where
  "mimeType e =
     (if e = ''mp3'' then ''audio/mpeg''
      else if e = ''wav'' then ''audio/wav''
      else if e = ''m4a'' then ''audio/mp4''
      else if e = ''ogg'' then ''audio/ogg''
      else if e = ''flac'' then ''audio/flac''
      else ''audio/*'')"

text \<open>
  The body of the \<open>try\<close> block, shared by the two job functions up to the command and
  the suffix of the result's file name: stage the input, run the command, read the
  output, wrap it. The first operation that rejects ends the block with its error.
  \<open>fetchFile\<close> is awaited before \<open>writeFile\<close> is called.
\<close>

definition tryBody ::
  "'w env \<Rightarrow> jsfile \<Rightarrow> profile \<Rightarrow> string list \<Rightarrow> string \<Rightarrow> 'w \<Rightarrow> (jserror + result) \<times> 'w" where
  "tryBody E f format command suffix w =
     (case fetchFile E f of
        Inl e \<Rightarrow> (Inl e, w)
      | Inr content \<Rightarrow>
          (case writeFile E (inputName f) content w of
             (Some e, w1) \<Rightarrow> (Inl e, w1)
           | (None, w1) \<Rightarrow>
               (case exec E command w1 of
                  (Some e, w2) \<Rightarrow> (Inl e, w2)
                | (None, w2) \<Rightarrow>
                    (case readFile E (outputName format) w2 of
                       (Inl e, w3) \<Rightarrow> (Inl e, w3)
                     | (Inr d, w3) \<Rightarrow>
                         (let b = \<lparr>blob_data = d, blob_type = mimeType (ext format)\<rparr>;
                              (u, w4) = createObjectURL E b w3;
                              baseName = removeExtension (name f)
                          in (Inr \<lparr>blob = b, url = u,
                                   filename = baseName @ suffix @ ext format\<rparr>, w4))))))"

text \<open>
  The \<open>finally\<close> block (lines 71 to 77 and 197 to 203): the two deletions stand in one
  \<open>try\<close>, so when the first rejects the second is not called; the error is dropped.
\<close>

definition cleanup :: "'w env \<Rightarrow> string \<Rightarrow> string \<Rightarrow> 'w \<Rightarrow> 'w" where
  "cleanup E inName outName w =
     (case deleteFile E inName w of
        (Some e, w1) \<Rightarrow> w1
      | (None, w1) \<Rightarrow> snd (deleteFile E outName w1))"

text \<open>
  \<open>compressSingleFile(file)\<close>. Reading \<open>format.ext\<close> of a format that is not in the
  table throws a TypeError before the \<open>try\<close> is entered.
\<close>

definition compressSingleFile ::
  "'w env \<Rightarrow> formatConfig \<Rightarrow> controls \<Rightarrow> jsfile \<Rightarrow> 'w \<Rightarrow> (jserror + result) \<times> 'w" where
  "compressSingleFile E formatConfig ui f w =
     (case formatConfig (outputFormat ui) of
        None \<Rightarrow> (Inl (TypeError ''Cannot read properties of undefined (reading ext)''), w)
      | Some format \<Rightarrow>
          (let command = compressCommand ui format (inputName f) (outputName format);
               (r, w1) = tryBody E f format command ''_converted.'' w
           in (r, cleanup E (inputName f) (outputName format) w1)))"

text \<open>\<open>convertAudioFormat(file, targetFormat, options)\<close>.\<close>

definition convertAudioFormat ::
  "'w env \<Rightarrow> formatConfig \<Rightarrow> jsfile \<Rightarrow> string \<Rightarrow> options \<Rightarrow> 'w \<Rightarrow> (jserror + result) \<times> 'w" where
  "convertAudioFormat E formatConfig f targetFormat opts w =
     (case formatConfig targetFormat of
        None \<Rightarrow> (Inl (TypeError ''Cannot read properties of undefined (reading ext)''), w)
      | Some config \<Rightarrow>
          (let command = convertCommand targetFormat opts config (inputName f) (outputName config);
               (r, w1) = tryBody E f config command ''.'' w
           in (r, cleanup E (inputName f) (outputName config) w1)))"

section \<open>audio-process.js: retry and batch\<close>

fun decimal :: "nat \<Rightarrow> string" where
  "decimal n =
     (if n < 10 then [char_of (48 + n)]
      else decimal (n div 10) @ [char_of (48 + n mod 10)])"

text \<open>The warning logged before a retry; its non-ASCII text is given in UTF-8.\<close>

definition retryMessage :: "int \<Rightarrow> string" where
  "retryMessage attempt =
     utf8 [0xE2, 0x9A, 0xA0, 0xEF, 0xB8, 0x8F, 0x20, 0xE7, 0xAC, 0xAC, 0x20]
     @ decimal (nat (attempt + 1))
     @ utf8 [0x20, 0xE6, 0xAC, 0xA1, 0xE5, 0xB0, 0x9D, 0xE8, 0xAF, 0x95, 0xE5, 0xA4, 0xB1,
             0xE8, 0xB4, 0xA5, 0xEF, 0xBC, 0x8C, 0xE9, 0x87, 0x8D, 0xE8, 0xAF, 0x95, 0xE4,
             0xB8, 0xAD, 0x2E, 0x2E, 0x2E]"

text \<open>
  The loop of \<open>compressSingleFileWithRetry\<close> (lines 87 to 98), from the value
  \<open>attempt\<close> of its counter. The function returns the job's result, throws the last
  error, or falls out of the loop and returns \<open>undefined\<close> (\<open>Inr None\<close>) when the
  loop condition fails at once. The second component counts the calls of
  \<open>compressSingleFile\<close> made; it is not a value of the program. The one-second pause
  before a retry changes no state.
\<close>

function retryLoop ::
  "'w env \<Rightarrow> formatConfig \<Rightarrow> controls \<Rightarrow> jsfile \<Rightarrow> int \<Rightarrow> int \<Rightarrow> 'w
     \<Rightarrow> (jserror + result option) \<times> nat \<times> 'w" where
  "retryLoop E formatConfig ui f maxRetries attempt w =
     (if attempt \<le> maxRetries then
        (case compressSingleFile E formatConfig ui f w of
           (Inr r, w1) \<Rightarrow> (Inr (Some r), 1, w1)
         | (Inl e, w1) \<Rightarrow>
             (if attempt < maxRetries then
                (case retryLoop E formatConfig ui f maxRetries (attempt + 1)
                        (log E (retryMessage attempt) w1) of
                   (r, n, w2) \<Rightarrow> (r, Suc n, w2))
              else (Inl e, 1, w1)))
      else (Inr None, 0, w))"
  by pat_completeness auto
termination
  by (relation "measure (\<lambda>(E, formatConfig, ui, f, maxRetries, attempt, w).
                           nat (maxRetries + 1 - attempt))") auto

declare retryLoop.simps [simp del]

text \<open>\<open>compressSingleFileWithRetry(file, maxRetries = 2)\<close>; \<open>None\<close> is an omitted argument.\<close>

definition compressSingleFileWithRetry ::
  "'w env \<Rightarrow> formatConfig \<Rightarrow> controls \<Rightarrow> jsfile \<Rightarrow> int option \<Rightarrow> 'w
     \<Rightarrow> (jserror + result option) \<times> nat \<times> 'w" where
  "compressSingleFileWithRetry E formatConfig ui f maxRetries w =
     retryLoop E formatConfig ui f (case maxRetries of None \<Rightarrow> 2 | Some m \<Rightarrow> m) 0 w"

text \<open>The entries \<open>{success, file, result}\<close> and \<open>{success, file, error}\<close> of a batch.\<close>

record successEntry =
  s_success :: bool
  s_file :: string
  s_result :: result

record errorEntry =
  e_success :: bool
  e_file :: string
  e_error :: string

text \<open>
  The loop of \<open>compressMultipleFiles\<close> (lines 110 to 127) over the files that remain,
  with the two arrays built so far.
\<close>

fun batchLoop ::
  "'w env \<Rightarrow> formatConfig \<Rightarrow> controls \<Rightarrow> jsfile list \<Rightarrow> successEntry list \<Rightarrow> errorEntry list
     \<Rightarrow> 'w \<Rightarrow> (successEntry list \<times> errorEntry list) \<times> 'w" where
  "batchLoop E formatConfig ui [] results errors w = ((results, errors), w)"
| "batchLoop E formatConfig ui (f # files) results errors w =
     (case compressSingleFile E formatConfig ui f w of
        (Inr r, w1) \<Rightarrow>
          batchLoop E formatConfig ui files
            (results @ [\<lparr>s_success = True, s_file = name f, s_result = r\<rparr>]) errors w1
      | (Inl e, w1) \<Rightarrow>
          batchLoop E formatConfig ui files results
            (errors @ [\<lparr>e_success = False, e_file = name f, e_error = message e\<rparr>]) w1)"

definition compressMultipleFiles ::
  "'w env \<Rightarrow> formatConfig \<Rightarrow> controls \<Rightarrow> jsfile list \<Rightarrow> 'w
     \<Rightarrow> (successEntry list \<times> errorEntry list) \<times> 'w" where
  "compressMultipleFiles E formatConfig ui files w = batchLoop E formatConfig ui files [] [] w"

section \<open>The two metadata probes\<close>

definition parseFailedMessage :: "jserror \<Rightarrow> string" where
  "parseFailedMessage e =
     utf8 [0xE5, 0x85, 0x83, 0xE6, 0x95, 0xB0, 0xE6, 0x8D, 0xAE, 0xE8, 0xA7, 0xA3, 0xE6,
           0x9E, 0x90, 0xE5, 0xA4, 0xB1, 0xE8, 0xB4, 0xA5, 0x3A, 0x20] @ message e"

text \<open>
  \<open>parseAudioMetadata(file)\<close> (file-handler.js): the length of the log is read after
  the input is staged and before the probe runs; the probe's rejection is dropped; the
  text after the recorded length is parsed. A failure of staging is logged and
  \<open>null\<close> (\<open>None\<close>) is returned.
\<close>

definition parseAudioMetadata :: "'w env \<Rightarrow> jsfile \<Rightarrow> 'w \<Rightarrow> metadata option \<times> 'w" where
  "parseAudioMetadata E f w =
     (case fetchFile E f of
        Inl e \<Rightarrow> (None, log E (parseFailedMessage e) w)
      | Inr content \<Rightarrow>
          (case writeFile E (inputName f) content w of
             (Some e, w1) \<Rightarrow> (None, log E (parseFailedMessage e) w1)
           | (None, w1) \<Rightarrow>
               (let prevLogLength = int (length (innerText E w1));
                    w2 = snd (exec E [''-i'', inputName f] w1);
                    logs = substring prevLogLength (innerText E w2);
                    metadata = parseMetadata logs;
                    w3 = snd (deleteFile E (inputName f) w2)
                in (Some metadata, w3))))"

definition notInitialised :: jserror where
  "notInitialised =
     Error (utf8 [0x46, 0x46, 0x6D, 0x70, 0x65, 0x67, 0xE6, 0x9C, 0xAA, 0xE5, 0x88, 0x9D,
                  0xE5, 0xA7, 0x8B, 0xE5, 0x8C, 0x96])"

definition mediaFailedMessage :: "jserror \<Rightarrow> string" where
  "mediaFailedMessage e =
     utf8 [0xE8, 0x8E, 0xB7, 0xE5, 0x8F, 0x96, 0xE5, 0xAA, 0x92, 0xE4, 0xBD, 0x93, 0xE5,
           0x85, 0x83, 0xE6, 0x95, 0xB0, 0xE6, 0x8D, 0xAE, 0xE5, 0xA4, 0xB1, 0xE8, 0xB4,
           0xA5, 0x3A, 0x20] @ message e"

text \<open>
  \<open>getMediaMetadata(file)\<close> (ffmpeg-utils.js): no length is recorded; after the probe
  and the deletion of the input the whole text of the log element is parsed. A failure
  of staging is logged and thrown again.
\<close>

definition getMediaMetadata :: "'w env \<Rightarrow> jsfile \<Rightarrow> 'w \<Rightarrow> (jserror + metadata) \<times> 'w" where
  "getMediaMetadata E f w =
     (if \<not> isLoaded E w then (Inl notInitialised, w)
      else
        (case fetchFile E f of
           Inl e \<Rightarrow> (Inl e, log E (mediaFailedMessage e) w)
         | Inr content \<Rightarrow>
             (case writeFile E (inputName f) content w of
                (Some e, w1) \<Rightarrow> (Inl e, log E (mediaFailedMessage e) w1)
              | (None, w1) \<Rightarrow>
                  (let w2 = snd (exec E [''-i'', inputName f] w1);
                       w3 = snd (deleteFile E (inputName f) w2)
                   in (Inr (parseMetadata (innerText E w3)), w3)))))"

section \<open>An engine stub for concrete scenarios\<close>

text \<open>
  A small engine that satisfies the interface above: a workspace of named buffers, a
  log text, and a script that says for each coming \<open>exec\<close> whether it succeeds and
  which text it appends to the log. Staging rejects when \<open>stagingFails\<close> is set;
  reading and deleting reject for a name that is not in the workspace; a successful
  \<open>exec\<close> writes the buffer named by its last argument. Every call is recorded.
\<close>

datatype call = WriteFile string | Exec "string list" | ReadFile string | DeleteFile string

record world =
  fs :: "(string \<times> bytes) list"
  logText :: string
  script :: "(bool \<times> string) list"
  stagingFails :: bool
  calls :: "call list"

definition put :: "string \<Rightarrow> bytes \<Rightarrow> (string \<times> bytes) list \<Rightarrow> (string \<times> bytes) list" where
  "put n d bufs = (n, d) # filter (\<lambda>p. fst p \<noteq> n) bufs"

definition stubWriteFile :: "string \<Rightarrow> bytes \<Rightarrow> world \<Rightarrow> jserror option \<times> world" where
  "stubWriteFile n d w =
     (if stagingFails w then (Some (Error ''write failed''), w\<lparr>calls := calls w @ [WriteFile n]\<rparr>)
      else (None, w\<lparr>fs := put n d (fs w), calls := calls w @ [WriteFile n]\<rparr>))"

definition stubExec :: "string list \<Rightarrow> world \<Rightarrow> jserror option \<times> world" where
  "stubExec argv w =
     (case script w of
        [] \<Rightarrow> (None, w\<lparr>fs := put (last argv) [0] (fs w), calls := calls w @ [Exec argv]\<rparr>)
      | (ok, txt) # rest \<Rightarrow>
          (if ok
           then (None, w\<lparr>fs := put (last argv) [0] (fs w), logText := logText w @ txt,
                          script := rest, calls := calls w @ [Exec argv]\<rparr>)
           else (Some (Error ''exec failed''),
                 w\<lparr>logText := logText w @ txt, script := rest,
                   calls := calls w @ [Exec argv]\<rparr>)))"

definition stubReadFile :: "string \<Rightarrow> world \<Rightarrow> (jserror + bytes) \<times> world" where
  "stubReadFile n w =
     (case map_of (fs w) n of
        None \<Rightarrow> (Inl (Error ''no such file''), w\<lparr>calls := calls w @ [ReadFile n]\<rparr>)
      | Some d \<Rightarrow> (Inr d, w\<lparr>calls := calls w @ [ReadFile n]\<rparr>))"

definition stubDeleteFile :: "string \<Rightarrow> world \<Rightarrow> jserror option \<times> world" where
  "stubDeleteFile n w =
     (case map_of (fs w) n of
        None \<Rightarrow> (Some (Error ''no such file''), w\<lparr>calls := calls w @ [DeleteFile n]\<rparr>)
      | Some d \<Rightarrow> (None, w\<lparr>fs := filter (\<lambda>p. fst p \<noteq> n) (fs w),
                             calls := calls w @ [DeleteFile n]\<rparr>))"

definition stub :: "world env" where
  "stub = \<lparr>isLoaded = (\<lambda>w. True),
           fetchFile = (\<lambda>f. Inr [1, 2, 3]),
           writeFile = stubWriteFile,
           exec = stubExec,
           readFile = stubReadFile,
           deleteFile = stubDeleteFile,
           createObjectURL = (\<lambda>b w. (''blob:stub'', w)),
           log = (\<lambda>m w. w\<lparr>logText := logText w @ m\<rparr>),
           innerText = logText\<rparr>"

definition world0 :: world where
  "world0 = \<lparr>fs = [], logText = [], script = [], stagingFails = False, calls = []\<rparr>"

text \<open>A format table, control values, options, a file and worlds for the scenarios.\<close>

definition mp3Profile :: profile where
  "mp3Profile = \<lparr>ext = ''mp3'', codec = ''libmp3lame'', supportsBitrate = True\<rparr>"

definition wavProfile :: profile where
  "wavProfile = \<lparr>ext = ''wav'', codec = ''pcm_s16le'', supportsBitrate = False\<rparr>"

definition flacProfile :: profile where
  "flacProfile = \<lparr>ext = ''flac'', codec = ''flac'', supportsBitrate = False\<rparr>"

definition formats :: formatConfig where
  "formats = [''mp3'' \<mapsto> mp3Profile, ''wav'' \<mapsto> wavProfile, ''flac'' \<mapsto> flacProfile]"

definition toMp3 :: controls where
  "toMp3 = \<lparr>outputFormat = ''mp3'', outputChannels = ''2'', outputSamplerate = ''44100'',
            outputBitrate = ''128k''\<rparr>"

definition bitrateOnly :: options where
  "bitrateOnly = \<lparr>opt_channels = None, opt_samplerate = None, opt_bitrate = Some ''128k'',
                  opt_compressionLevel = None\<rparr>"

definition song :: jsfile where
  "song = \<lparr>name = ''song.wav'', type = ''audio/wav''\<rparr>"

text \<open>The coming three calls of \<open>exec\<close> fail, fail and succeed.\<close>

definition failsTwice :: world where
  "failsTwice = world0\<lparr>script := [(False, []), (False, []), (True, [])]\<rparr>"

text \<open>The coming call of \<open>exec\<close> fails; the ones after it succeed.\<close>

definition failsOnce :: world where
  "failsOnce = world0\<lparr>script := [(False, [])]\<rparr>"

text \<open>Staging rejects, and the workspace holds a buffer under the output name.\<close>

definition staleOutput :: world where
  "staleOutput = world0\<lparr>fs := [(''output.mp3'', [9])], stagingFails := True\<rparr>"

text \<open>The log text of the metadata scenario.\<close>

definition scenario :: string where
  "scenario = ''Duration: 00:03:21.45, ... 44100 Hz, stereo, 192 kbps''"

text \<open>
  The log already holds the lines of an earlier probe; the coming probe fails, as a
  probe does, and appends the lines of the present file.
\<close>

definition secondProbe :: world where
  "secondProbe =
     world0\<lparr>logText := ''Duration: 00:00:10.00, 8000 Hz, mono, 64 kbps. '',
            script := [(False, scenario)]\<rparr>"

section \<open>The argument order in the words of the specification\<close>

text \<open>
  The order the specification gives for the command: input reference, optional channel
  count, optional sample rate, codec selector, optional bitrate (only when the profile
  supports one), the fixed arguments of the format (a compression level for FLAC, a
  compatibility flag for AAC), output reference. It is compared below with the two
  commands the code builds.
\<close>

definition formatArguments :: "string \<Rightarrow> string list" where
  "formatArguments fmt =
     (if fmt = ''flac'' then [''-compression_level'', ''5'']
      else if fmt = ''aac'' then [''-strict'', ''experimental'']
      else [])"

definition specOrderCommand ::
  "string \<Rightarrow> string option \<Rightarrow> string option \<Rightarrow> profile \<Rightarrow> string option \<Rightarrow> string \<Rightarrow> string
     \<Rightarrow> string list" where
  "specOrderCommand inName ch sr p br fmt outName =
     [''-i'', inName]
     @ (if truthyOpt ch then [''-ac'', the ch] else [])
     @ (if truthyOpt sr then [''-ar'', the sr] else [])
     @ [''-acodec'', codec p]
     @ (if truthyOpt br \<and> supportsBitrate p then [''-b:a'', the br] else [])
     @ formatArguments fmt
     @ [outName]"

section \<open>Properties of the extension functions\<close>

lemma lastIndexOf_absent: "c \<notin> set s \<Longrightarrow> lastIndexOf c s = - 1"
  by (induction s) (auto simp: Let_def)

lemma lowerChar_idem: "lowerChar (lowerChar c) = lowerChar c"
proof (cases "65 \<le> (of_char c :: nat) \<and> (of_char c :: nat) \<le> 90")
  case True
  then have "(of_char (char_of (of_char c + 32 :: nat)) :: nat) = of_char c + 32"
    by simp
  with True show ?thesis by (simp add: lowerChar_def Let_def)
next
  case False
  then show ?thesis by (auto simp: lowerChar_def Let_def)
qed

lemma toLowerCase_idem: "toLowerCase (toLowerCase s) = toLowerCase s"
  by (simp add: toLowerCase_def lowerChar_idem)

lemma getFileExtension_dotless:
  "CHR ''.'' \<notin> set fname \<Longrightarrow> getFileExtension fname = toLowerCase fname"
  by (simp add: getFileExtension_def lastIndexOf_absent substring_def)

text \<open>
  Claim C10. A file name without a dot is its own extension: \<open>getFileExtension\<close>
  returns the whole name in lower case, which is not empty when the name is not. So
  \<open>isAudioFile\<close> accepts a dotless file whose name is a supported extension, and it
  accepts every file whose MIME type starts with \<open>audio/\<close>, whatever its name.
\<close>

theorem getFileExtension_dotless_whole_name:
  "(CHR ''.'' \<notin> set fname \<longrightarrow>
      getFileExtension fname = toLowerCase fname
      \<and> (fname \<noteq> [] \<longrightarrow> getFileExtension fname \<noteq> []))
   \<and> (CHR ''.'' \<notin> set (name f) \<and> toLowerCase (name f) \<in> set validExtensions
        \<longrightarrow> isAudioFile f)
   \<and> (startsWith ''audio/'' (type f) \<longrightarrow> isAudioFile f)"
proof (intro conjI impI)
  assume "CHR ''.'' \<notin> set fname"
  then show eq: "getFileExtension fname = toLowerCase fname"
    by (rule getFileExtension_dotless)
  assume "fname \<noteq> []"
  with eq show "getFileExtension fname \<noteq> []"
    by (simp add: toLowerCase_def)
next
  assume h: "CHR ''.'' \<notin> set (name f) \<and> toLowerCase (name f) \<in> set validExtensions"
  then have "getFileExtension (name f) = toLowerCase (name f)"
    by (simp add: getFileExtension_dotless)
  with h show "isAudioFile f"
    by (simp add: isAudioFile_def Let_def toLowerCase_idem)
next
  assume "startsWith ''audio/'' (type f)"
  then show "isAudioFile f"
    by (simp add: isAudioFile_def Let_def)
qed

theorem getFileExtension_dotless_whole_name_witness:
  "CHR ''.'' \<notin> set ''MP3'' \<and> getFileExtension ''MP3'' = ''mp3''
   \<and> toLowerCase (name \<lparr>name = ''mp3'', type = []\<rparr>) \<in> set validExtensions
   \<and> isAudioFile \<lparr>name = ''mp3'', type = []\<rparr>
   \<and> startsWith ''audio/'' (type \<lparr>name = ''clip.bin'', type = ''audio/x-custom''\<rparr>)
   \<and> isAudioFile \<lparr>name = ''clip.bin'', type = ''audio/x-custom''\<rparr>"
proof -
  have h1: "CHR ''.'' \<notin> set ''MP3''" by simp
  have lower: "toLowerCase ''MP3'' = ''mp3''" by code_simp
  have h2: "CHR ''.'' \<notin> set (name \<lparr>name = ''mp3'', type = []\<rparr>)
          \<and> toLowerCase (name \<lparr>name = ''mp3'', type = []\<rparr>) \<in> set validExtensions"
    by code_simp
  have h3: "startsWith ''audio/'' (type \<lparr>name = ''clip.bin'', type = ''audio/x-custom''\<rparr>)"
    by code_simp
  from getFileExtension_dotless_whole_name [of "''MP3''" "\<lparr>name = ''mp3'', type = []\<rparr>"]
    h1 h2 lower
  have a: "getFileExtension ''MP3'' = ''mp3'' \<and> isAudioFile \<lparr>name = ''mp3'', type = []\<rparr>"
    by simp
  from getFileExtension_dotless_whole_name
         [of "''MP3''" "\<lparr>name = ''clip.bin'', type = ''audio/x-custom''\<rparr>"] h3
  have b: "isAudioFile \<lparr>name = ''clip.bin'', type = ''audio/x-custom''\<rparr>"
    by blast
  from h1 h2 h3 a b show ?thesis by blast
qed

section \<open>Properties of parseMetadata\<close>

text \<open>A character that cannot start a match of a pattern is skipped by the search.\<close>

lemma plusLoop_no_match: "m s = [] \<Longrightarrow> plusLoop m n s = []"
  by (cases n) simp_all

lemma matchGroup_skip:
  assumes "\<And>c t. c \<in> set before \<Longrightarrow> matchGroupAt p g q (c # t) = None"
  shows "matchGroup p g q (before @ s) = matchGroup p g q s"
  using assms by (induction before) simp_all

lemma duration_no_start:
  "c \<noteq> CHR ''D'' \<Longrightarrow> matchGroupAt (Lit ''Duration: '') g q (c # t) = None"
  by (simp add: matchGroupAt_def)

lemma digits_no_start:
  "\<not> isDigit c \<Longrightarrow> matchGroupAt (Lit []) (Plus Digit) q (c # t) = None"
  by (simp add: matchGroupAt_def plusLoop_no_match)

lemma channels_no_start:
  "\<not> isDigit c \<Longrightarrow> c \<noteq> CHR ''m'' \<Longrightarrow> c \<noteq> CHR ''s'' \<Longrightarrow>
   matchGroupAt (Lit [])
     (Alt (Lit ''mono'') (Alt (Lit ''stereo'') (Seq (Plus Digit) (Lit '' channels'')))) q (c # t)
     = None"
  by (simp add: matchGroupAt_def plusLoop_no_match)

lemma bitrate_no_start:
  "\<not> isDigit c \<Longrightarrow>
   matchGroupAt (Lit []) (Seq (Plus Digit) (Opt (Seq (Lit ''.'') (Plus Digit)))) q (c # t) = None"
  by (simp add: matchGroupAt_def plusLoop_no_match)

text \<open>The four matches in the text of the scenario, whatever follows it.\<close>

lemma scenario_duration: "durationMatch (scenario @ rest) = Some ''00:03:21.45''"
  by (simp add: scenario_def durationMatch_def matchGroupAt_def isDigit_def)

lemma scenario_sampleRate: "sampleRateMatch (scenario @ rest) = Some ''44100''"
  by (simp add: scenario_def sampleRateMatch_def matchGroupAt_def isDigit_def)

lemma scenario_channels: "channelsMatch (scenario @ rest) = Some ''stereo''"
  by (simp add: scenario_def channelsMatch_def matchGroupAt_def isDigit_def)

lemma scenario_bitrate: "bitrateMatch (scenario @ rest) = Some ''192''"
  by (simp add: scenario_def bitrateMatch_def matchGroupAt_def isDigit_def)

lemma scenario_embedded:
  assumes clean: "\<forall>c \<in> set before. c \<notin> set ''Dms0123456789''"
  shows "parseMetadata (before @ scenario @ rest) =
       \<lparr>duration = ''00:03:21.45'', sampleRate = ''44100 Hz'',
        channels = ''stereo'', bitrate = ''192 kbps''\<rparr>"
proof -
  have nd: "\<not> isDigit c" and nD: "c \<noteq> CHR ''D''" and nm: "c \<noteq> CHR ''m''"
    and ns: "c \<noteq> CHR ''s''" if "c \<in> set before" for c
    using clean that by (auto simp: isDigit_def)
  have d: "durationMatch (before @ scenario @ rest) = Some ''00:03:21.45''"
    using matchGroup_skip [of before "Lit ''Duration: ''" _ "Lit []" "scenario @ rest"]
      duration_no_start nD scenario_duration [of rest]
    by (simp add: durationMatch_def)
  have r: "sampleRateMatch (before @ scenario @ rest) = Some ''44100''"
    using matchGroup_skip [of before "Lit []" "Plus Digit" "Lit '' Hz''" "scenario @ rest"]
      digits_no_start nd scenario_sampleRate [of rest]
    by (simp add: sampleRateMatch_def)
  have c: "channelsMatch (before @ scenario @ rest) = Some ''stereo''"
    using matchGroup_skip [of before "Lit []" _ "Lit []" "scenario @ rest"]
      channels_no_start nd nm ns scenario_channels [of rest]
    by (simp add: channelsMatch_def)
  have b: "bitrateMatch (before @ scenario @ rest) = Some ''192''"
    using matchGroup_skip [of before "Lit []" _ "Lit '' kbps''" "scenario @ rest"]
      bitrate_no_start nd scenario_bitrate [of rest]
    by (simp add: bitrateMatch_def)
  show ?thesis
    by (simp add: parseMetadata_def Let_def d r c b matched_def truthy_def)
qed

text \<open>
  Claim C9. \<open>parseMetadata\<close> is a total function into the metadata record. On the
  empty text all four fields are the unknown marker. Each field is decided by its own
  pattern alone: it holds the text of that pattern's match, or the unknown marker when
  that pattern has no match, whatever the other three patterns find. On the text
  \<open>Duration: 00:03:21.45, ... 44100 Hz, stereo, 192 kbps\<close> the four fields are
  \<open>00:03:21.45\<close>, \<open>44100 Hz\<close>, \<open>stereo\<close> and \<open>192 kbps\<close>; and so they are
  on every text that contains it after characters that start no match (no digit and
  none of \<open>D\<close>, \<open>m\<close>, \<open>s\<close>), whatever follows it.
\<close>

theorem parseMetadata_fields:
  "parseMetadata [] =
     \<lparr>duration = unknown, sampleRate = unknown, channels = unknown, bitrate = unknown\<rparr>
   \<and> duration (parseMetadata logs) =
       (if matched (durationMatch logs) then the (durationMatch logs) else unknown)
   \<and> sampleRate (parseMetadata logs) =
       (if matched (sampleRateMatch logs) then the (sampleRateMatch logs) @ '' Hz''
        else unknown)
   \<and> channels (parseMetadata logs) =
       (if matched (channelsMatch logs) then the (channelsMatch logs) else unknown)
   \<and> bitrate (parseMetadata logs) =
       (if matched (bitrateMatch logs) then the (bitrateMatch logs) @ '' kbps''
        else unknown)
   \<and> parseMetadata ''Duration: 00:03:21.45, ... 44100 Hz, stereo, 192 kbps'' =
       \<lparr>duration = ''00:03:21.45'', sampleRate = ''44100 Hz'',
        channels = ''stereo'', bitrate = ''192 kbps''\<rparr>
   \<and> ((\<forall>c \<in> set before. c \<notin> set ''Dms0123456789'') \<longrightarrow>
        parseMetadata
          (before @ ''Duration: 00:03:21.45, ... 44100 Hz, stereo, 192 kbps'' @ rest) =
        \<lparr>duration = ''00:03:21.45'', sampleRate = ''44100 Hz'',
         channels = ''stereo'', bitrate = ''192 kbps''\<rparr>)"
proof (intro conjI impI)
  show "parseMetadata [] =
     \<lparr>duration = unknown, sampleRate = unknown, channels = unknown, bitrate = unknown\<rparr>"
    by code_simp
  show "parseMetadata ''Duration: 00:03:21.45, ... 44100 Hz, stereo, 192 kbps'' =
       \<lparr>duration = ''00:03:21.45'', sampleRate = ''44100 Hz'',
        channels = ''stereo'', bitrate = ''192 kbps''\<rparr>"
    using scenario_embedded [of "[]" "[]"] by (simp add: scenario_def)
  show "parseMetadata
          (before @ ''Duration: 00:03:21.45, ... 44100 Hz, stereo, 192 kbps'' @ rest) =
        \<lparr>duration = ''00:03:21.45'', sampleRate = ''44100 Hz'',
         channels = ''stereo'', bitrate = ''192 kbps''\<rparr>"
    if "\<forall>c \<in> set before. c \<notin> set ''Dms0123456789''"
    using scenario_embedded [OF that, of rest] by (simp add: scenario_def)
qed (simp_all add: parseMetadata_def Let_def)

theorem parseMetadata_fields_witness:
  "parseMetadata
     (''[info] '' @ ''Duration: 00:03:21.45, ... 44100 Hz, stereo, 192 kbps'' @ '', fltp'') =
   \<lparr>duration = ''00:03:21.45'', sampleRate = ''44100 Hz'',
    channels = ''stereo'', bitrate = ''192 kbps''\<rparr>"
proof -
  have h: "\<forall>c \<in> set ''[info] ''. c \<notin> set ''Dms0123456789''" by simp
  from parseMetadata_fields [of "[]" "''[info] ''" "'', fltp''"] h
  show ?thesis by blast
qed

section \<open>Properties of the buffer names\<close>

text \<open>
  Claim C8, as stated, fails: the buffer names are fixed by the extensions. Two
  different files with the same extension get the same input name, and the output name
  carries nothing of the job but the extension of the target format.
\<close>

theorem buffer_names_shared:
  "\<lparr>name = ''a.mp3'', type = ''audio/mpeg''\<rparr> \<noteq> \<lparr>name = ''b.mp3'', type = ''audio/mpeg''\<rparr>
   \<and> inputName \<lparr>name = ''a.mp3'', type = ''audio/mpeg''\<rparr>
       = inputName \<lparr>name = ''b.mp3'', type = ''audio/mpeg''\<rparr>
   \<and> inputName \<lparr>name = ''a.mp3'', type = ''audio/mpeg''\<rparr> = ''input.mp3''
   \<and> outputName wavProfile = ''output.wav''"
  by code_simp

text \<open>
  Claim C8, amended. The input name of a job is determined by the extension of its file
  and the output name by the extension of the target format: two jobs share the input
  name exactly when their files have the same extension, and the output name exactly
  when their formats have the same extension. Within one job the input name and the
  output name always differ.
\<close>

theorem buffer_names_by_extension:
  "(inputName f = inputName g \<longleftrightarrow> getFileExtension (name f) = getFileExtension (name g))
   \<and> (outputName p = outputName q \<longleftrightarrow> ext p = ext q)
   \<and> inputName f \<noteq> outputName p"
  by (simp add: inputName_def outputName_def)

section \<open>Properties of the two commands\<close>

text \<open>
  Claim C3. When the profile does not support a bitrate, the command of either job
  function is the command built with no bitrate at all, whatever bitrate the caller
  supplied: the builder drops it. The flag \<open>-b:a\<close> then does not occur in the command,
  unless the channel count, the sample rate, the compression level or the codec name is
  itself that text.
\<close>

theorem bitrate_dropped_when_unsupported:
  "\<not> supportsBitrate format \<longrightarrow>
      compressCommand ui format (inputName f) (outputName format)
        = compressCommand (ui\<lparr>outputBitrate := []\<rparr>) format (inputName f) (outputName format)
    \<and> convertCommand t opts format (inputName f) (outputName format)
        = convertCommand t (opts\<lparr>opt_bitrate := None\<rparr>) format (inputName f) (outputName format)
    \<and> (''-b:a'' \<notin> {outputChannels ui, outputSamplerate ui, codec format}
         \<longrightarrow> ''-b:a'' \<notin> set (compressCommand ui format (inputName f) (outputName format)))
    \<and> (Some ''-b:a'' \<notin> {opt_channels opts, opt_samplerate opts, opt_compressionLevel opts}
          \<and> codec format \<noteq> ''-b:a''
         \<longrightarrow> ''-b:a'' \<notin> set (convertCommand t opts format (inputName f) (outputName format)))"
proof (intro impI conjI)
  assume no: "\<not> supportsBitrate format"
  show "compressCommand ui format (inputName f) (outputName format)
        = compressCommand (ui\<lparr>outputBitrate := []\<rparr>) format (inputName f) (outputName format)"
    using no by (simp add: compressCommand_def Let_def)
  show "convertCommand t opts format (inputName f) (outputName format)
        = convertCommand t (opts\<lparr>opt_bitrate := None\<rparr>) format (inputName f) (outputName format)"
    using no by (simp add: convertCommand_def Let_def)
  show "''-b:a'' \<notin> set (compressCommand ui format (inputName f) (outputName format))"
    if "''-b:a'' \<notin> {outputChannels ui, outputSamplerate ui, codec format}"
    using no that by (auto simp: compressCommand_def Let_def inputName_def outputName_def)
  show "''-b:a'' \<notin> set (convertCommand t opts format (inputName f) (outputName format))"
    if "Some ''-b:a'' \<notin> {opt_channels opts, opt_samplerate opts, opt_compressionLevel opts}
          \<and> codec format \<noteq> ''-b:a''"
    using no that
    by (auto simp: convertCommand_def Let_def inputName_def outputName_def truthyOpt_def
             split: option.splits)
qed

theorem bitrate_dropped_when_unsupported_witness:
  "\<not> supportsBitrate wavProfile
   \<and> ''-b:a'' \<notin> {outputChannels toMp3, outputSamplerate toMp3, codec wavProfile}
   \<and> outputBitrate toMp3 = ''128k''
   \<and> ''-b:a'' \<notin> set (compressCommand toMp3 wavProfile (inputName song) (outputName wavProfile))
   \<and> Some ''-b:a'' \<notin> {opt_channels bitrateOnly, opt_samplerate bitrateOnly,
                       opt_compressionLevel bitrateOnly}
   \<and> opt_bitrate bitrateOnly = Some ''128k''
   \<and> ''-b:a'' \<notin> set (convertCommand ''wav'' bitrateOnly wavProfile (inputName song)
                        (outputName wavProfile))"
proof -
  have h0: "\<not> supportsBitrate wavProfile" by (simp add: wavProfile_def)
  have h1: "''-b:a'' \<notin> {outputChannels toMp3, outputSamplerate toMp3, codec wavProfile}"
    by (simp add: toMp3_def wavProfile_def)
  have h2: "Some ''-b:a'' \<notin> {opt_channels bitrateOnly, opt_samplerate bitrateOnly,
                       opt_compressionLevel bitrateOnly} \<and> codec wavProfile \<noteq> ''-b:a''"
    by (simp add: bitrateOnly_def wavProfile_def)
  have b: "outputBitrate toMp3 = ''128k'' \<and> opt_bitrate bitrateOnly = Some ''128k''"
    by (simp add: toMp3_def bitrateOnly_def)
  from bitrate_dropped_when_unsupported [of wavProfile toMp3 song "''wav''" bitrateOnly]
    h0 h1 h2 b
  show ?thesis by blast
qed

text \<open>
  Claim C5, as stated, fails for \<open>convertAudioFormat\<close>: with a bitrate and a profile
  that supports one, its command has the bitrate before the codec selector, which is not
  the order of the specification.
\<close>

theorem convertCommand_bitrate_before_codec:
  "convertCommand ''mp3'' bitrateOnly mp3Profile ''input.wav'' ''output.mp3''
     = [''-i'', ''input.wav'', ''-b:a'', ''128k'', ''-acodec'', ''libmp3lame'', ''output.mp3'']
   \<and> specOrderCommand ''input.wav'' None None mp3Profile (Some ''128k'') ''mp3'' ''output.mp3''
     = [''-i'', ''input.wav'', ''-acodec'', ''libmp3lame'', ''-b:a'', ''128k'', ''output.mp3'']
   \<and> convertCommand ''mp3'' bitrateOnly mp3Profile ''input.wav'' ''output.mp3''
     \<noteq> specOrderCommand ''input.wav'' (opt_channels bitrateOnly) (opt_samplerate bitrateOnly)
         mp3Profile (opt_bitrate bitrateOnly) ''mp3'' ''output.mp3''"
  by (simp add: convertCommand_def specOrderCommand_def formatArguments_def bitrateOnly_def
        mp3Profile_def truthyOpt_def truthy_def Let_def)

text \<open>
  Claim C5, amended. The command of \<open>compressSingleFile\<close> is the command in the order
  of the specification, built from the four controls. The command of
  \<open>convertAudioFormat\<close> is: input reference, optional channel count, optional sample
  rate, optional bitrate (only when the profile supports one), codec selector, the
  arguments of the format (for FLAC the compression level of the options, \<open>5\<close> when
  it is absent or empty; for AAC the compatibility flag), output reference.
\<close>

theorem command_argument_order:
  "compressCommand ui format inName outName
     = specOrderCommand inName (Some (outputChannels ui)) (Some (outputSamplerate ui)) format
         (Some (outputBitrate ui)) (outputFormat ui) outName
   \<and> convertCommand t opts config inName outName
     = [''-i'', inName]
       @ (if truthyOpt (opt_channels opts) then [''-ac'', the (opt_channels opts)] else [])
       @ (if truthyOpt (opt_samplerate opts) then [''-ar'', the (opt_samplerate opts)] else [])
       @ (if truthyOpt (opt_bitrate opts) \<and> supportsBitrate config
          then [''-b:a'', the (opt_bitrate opts)] else [])
       @ [''-acodec'', codec config]
       @ (if t = ''flac''
          then [''-compression_level'',
                if truthyOpt (opt_compressionLevel opts) then the (opt_compressionLevel opts)
                else ''5'']
          else if t = ''aac'' then [''-strict'', ''experimental'']
          else [])
       @ [outName]"
  by (simp add: compressCommand_def convertCommand_def specOrderCommand_def
        formatArguments_def truthyOpt_def Let_def)

section \<open>Properties of the cleanup\<close>

text \<open>
  The \<open>finally\<close> block calls \<open>deleteFile\<close> for the input name first. When that call
  rejects, the block ends there; only when it does not reject is \<open>deleteFile\<close> called
  for the output name.
\<close>

lemma cleanup_after_rejection:
  "deleteFile E inName w = (Some e, w1) \<Longrightarrow> cleanup E inName outName w = w1"
  by (simp add: cleanup_def)

lemma cleanup_both:
  "deleteFile E inName w = (None, w1) \<Longrightarrow>
     cleanup E inName outName w = snd (deleteFile E outName w1)"
  by (simp add: cleanup_def)

text \<open>
  Claim C1 fails on the code. On the engine stub, with a workspace that holds a buffer
  under the output name and a staging that rejects: the job throws the staging error,
  the only calls are the rejected \<open>writeFile\<close> and the \<open>deleteFile\<close> of the input
  name (which rejects, the input not being there), \<open>deleteFile\<close> is never called for
  the output name, and the buffer under the output name is still in the workspace.
\<close>

theorem cleanup_skips_output_after_failed_staging:
  "fst (compressSingleFile stub formats toMp3 song staleOutput) = Inl (Error ''write failed'')
   \<and> calls (snd (compressSingleFile stub formats toMp3 song staleOutput))
       = [WriteFile ''input.wav'', DeleteFile ''input.wav'']
   \<and> fs (snd (compressSingleFile stub formats toMp3 song staleOutput)) = [(''output.mp3'', [9])]"
  by code_simp

section \<open>Properties of the batch\<close>

lemma batchLoop_partition:
  "\<exists>flags rs' es' w'.
      batchLoop E fc ui files rs es w = ((rs @ rs', es @ es'), w')
    \<and> length flags = length files
    \<and> map s_file rs' = map (name \<circ> fst) (filter snd (zip files flags))
    \<and> map e_file es' = map (name \<circ> fst) (filter (Not \<circ> snd) (zip files flags))"
proof (induction files arbitrary: rs es w)
  case Nil
  show ?case by simp
next
  case (Cons f files)
  obtain r w1 where step: "compressSingleFile E fc ui f w = (r, w1)"
    by (cases "compressSingleFile E fc ui f w")
  show ?case
  proof (cases r)
    case (Inr res)
    let ?entry = "\<lparr>s_success = True, s_file = name f, s_result = res\<rparr>"
    from Cons.IH [of "rs @ [?entry]" es w1]
    obtain flags rs' es' w' where
      run: "batchLoop E fc ui files (rs @ [?entry]) es w1 = (((rs @ [?entry]) @ rs', es @ es'), w')"
      and len: "length flags = length files"
      and oks: "map s_file rs' = map (name \<circ> fst) (filter snd (zip files flags))"
      and bad: "map e_file es' = map (name \<circ> fst) (filter (Not \<circ> snd) (zip files flags))"
      by blast
    have "batchLoop E fc ui (f # files) rs es w = ((rs @ (?entry # rs'), es @ es'), w')"
      using step Inr run by simp
    moreover have "length (True # flags) = length (f # files)"
      using len by simp
    moreover have "map s_file (?entry # rs') =
        map (name \<circ> fst) (filter snd (zip (f # files) (True # flags)))"
      using oks by simp
    moreover have "map e_file es' =
        map (name \<circ> fst) (filter (Not \<circ> snd) (zip (f # files) (True # flags)))"
      using bad by simp
    ultimately show ?thesis by blast
  next
    case (Inl err)
    let ?entry = "\<lparr>e_success = False, e_file = name f, e_error = message err\<rparr>"
    from Cons.IH [of rs "es @ [?entry]" w1]
    obtain flags rs' es' w' where
      run: "batchLoop E fc ui files rs (es @ [?entry]) w1 = ((rs @ rs', (es @ [?entry]) @ es'), w')"
      and len: "length flags = length files"
      and oks: "map s_file rs' = map (name \<circ> fst) (filter snd (zip files flags))"
      and bad: "map e_file es' = map (name \<circ> fst) (filter (Not \<circ> snd) (zip files flags))"
      by blast
    have "batchLoop E fc ui (f # files) rs es w = ((rs @ rs', es @ (?entry # es')), w')"
      using step Inl run by simp
    moreover have "length (False # flags) = length (f # files)"
      using len by simp
    moreover have "map s_file rs' =
        map (name \<circ> fst) (filter snd (zip (f # files) (False # flags)))"
      using oks by simp
    moreover have "map e_file (?entry # es') =
        map (name \<circ> fst) (filter (Not \<circ> snd) (zip (f # files) (False # flags)))"
      using bad by simp
    ultimately show ?thesis by blast
  qed
qed

lemma partition_lengths:
  assumes "length flags = length files"
    and "map sf rs = map g (filter snd (zip files flags))"
    and "map ef es = map g (filter (Not \<circ> snd) (zip files flags))"
  shows "length rs + length es = length files"
proof -
  have "length rs = length (filter snd (zip files flags))"
    using assms(2) by (metis length_map)
  moreover have "length es = length (filter (Not \<circ> snd) (zip files flags))"
    using assms(3) by (metis length_map)
  moreover have "length (filter snd (zip files flags))
      + length (filter (Not \<circ> snd) (zip files flags)) = length (zip files flags)"
    using sum_length_filter_compl [of snd "zip files flags"] by (simp add: comp_def)
  ultimately show ?thesis using assms(1) by simp
qed

text \<open>
  Claim C2. For every list of files \<open>compressMultipleFiles\<close> returns its two lists
  (no path of it throws: every rejection of a job is caught and recorded). There is a
  success flag for each input file such that the names in \<open>results\<close> are those of
  the files flagged as successes and the names in \<open>errors\<close> those of the others,
  both in the order of the input. So every file is in exactly one list and the two
  lengths add up to the number of files.
\<close>

theorem compressMultipleFiles_partition:
  "\<exists>flags results errors w'.
      compressMultipleFiles E fc ui files w = ((results, errors), w')
    \<and> length flags = length files
    \<and> map s_file results = map (name \<circ> fst) (filter snd (zip files flags))
    \<and> map e_file errors = map (name \<circ> fst) (filter (Not \<circ> snd) (zip files flags))
    \<and> length results + length errors = length files"
proof -
  from batchLoop_partition [of E fc ui files "[]" "[]" w]
  obtain flags rs' es' w' where
    run: "batchLoop E fc ui files [] [] w = (([] @ rs', [] @ es'), w')"
    and len: "length flags = length files"
    and oks: "map s_file rs' = map (name \<circ> fst) (filter snd (zip files flags))"
    and bad: "map e_file es' = map (name \<circ> fst) (filter (Not \<circ> snd) (zip files flags))"
    by blast
  have "length rs' + length es' = length files"
    using partition_lengths [OF len oks bad] .
  with run len oks bad show ?thesis
    unfolding compressMultipleFiles_def by auto
qed

text \<open>
  Claim C6 fails on the code. \<open>compressMultipleFiles\<close> calls \<open>compressSingleFile\<close>,
  not the retrying operation. On the engine stub whose next \<open>exec\<close> fails and whose
  later ones succeed, a batch of one file runs \<open>exec\<close> once and records the file as
  failed, while \<open>compressSingleFileWithRetry\<close> on the same file and state succeeds.
\<close>

theorem batch_records_failure_without_retry:
  "fst (compressMultipleFiles stub formats toMp3 [song] failsOnce)
     = ([], [\<lparr>e_success = False, e_file = ''song.wav'', e_error = ''exec failed''\<rparr>])
   \<and> length (filter (\<lambda>c. case c of Exec argv \<Rightarrow> True | _ \<Rightarrow> False)
        (calls (snd (compressMultipleFiles stub formats toMp3 [song] failsOnce)))) = 1
   \<and> fst (compressSingleFileWithRetry stub formats toMp3 song None failsOnce)
     = Inr (Some \<lparr>blob = \<lparr>blob_data = [0], blob_type = ''audio/mpeg''\<rparr>,
                  url = ''blob:stub'', filename = ''song_converted.mp3''\<rparr>)"
  by code_simp

section \<open>Properties of the metadata probes\<close>

text \<open>
  \<open>parseAudioMetadata\<close> parses the text the probe appended to the log;
  \<open>getMediaMetadata\<close> parses the whole text of the log element.
\<close>

lemma parseAudioMetadata_slice:
  assumes "fetchFile E f = Inr content"
    and "writeFile E (inputName f) content w = (None, w1)"
    and "innerText E (snd (exec E [''-i'', inputName f] w1)) = innerText E w1 @ segment"
  shows "fst (parseAudioMetadata E f w) = Some (parseMetadata segment)"
  using assms by (simp add: parseAudioMetadata_def Let_def substring_def)

lemma getMediaMetadata_whole:
  assumes "isLoaded E w" and "fetchFile E f = Inr content"
    and "writeFile E (inputName f) content w = (None, w1)"
  shows "fst (getMediaMetadata E f w)
    = Inr (parseMetadata (innerText E
        (snd (deleteFile E (inputName f) (snd (exec E [''-i'', inputName f] w1))))))"
  using assms by (simp add: getMediaMetadata_def Let_def)

text \<open>
  Claim C7 fails on the code for \<open>getMediaMetadata\<close>. On the engine stub, with a log
  that already holds the lines of an earlier file and a probe that appends the lines of
  the present one, \<open>getMediaMetadata\<close> returns the metadata of the earlier file, while
  \<open>parseAudioMetadata\<close> on the same file and state returns those of the present one.
\<close>

theorem getMediaMetadata_parses_whole_log:
  "fst (getMediaMetadata stub song secondProbe)
     = Inr \<lparr>duration = ''00:00:10.00'', sampleRate = ''8000 Hz'',
            channels = ''mono'', bitrate = ''64 kbps''\<rparr>
   \<and> fst (parseAudioMetadata stub song secondProbe)
     = Some \<lparr>duration = ''00:03:21.45'', sampleRate = ''44100 Hz'',
             channels = ''stereo'', bitrate = ''192 kbps''\<rparr>"
  by code_simp

section \<open>Properties of the retry loop\<close>

lemma retryLoop_attempts:
  "int (fst (snd (retryLoop E fc ui f m a w))) \<le> max 0 (m + 1 - a)"
proof (induction E fc ui f m a w rule: retryLoop.induct)
  case (1 E fc ui f m a w)
  show ?case
  proof (cases "a \<le> m")
    case False
    then have "retryLoop E fc ui f m a w = (Inr None, 0, w)"
      by (subst retryLoop.simps) simp
    then show ?thesis by simp
  next
    case le: True
    obtain r w1 where step: "compressSingleFile E fc ui f w = (r, w1)"
      by (cases "compressSingleFile E fc ui f w")
    show ?thesis
    proof (cases r)
      case (Inr res)
      with le step have "retryLoop E fc ui f m a w = (Inr (Some res), 1, w1)"
        by (subst retryLoop.simps) simp
      with le show ?thesis by simp
    next
      case (Inl e)
      show ?thesis
      proof (cases "a < m")
        case False
        with le step Inl have "retryLoop E fc ui f m a w = (Inl e, 1, w1)"
          by (subst retryLoop.simps) simp
        with le show ?thesis by simp
      next
        case True
        let ?next = "retryLoop E fc ui f m (a + 1) (log E (retryMessage a) w1)"
        have ih: "int (fst (snd ?next)) \<le> max 0 (m + 1 - (a + 1))"
          using "1.IH" [OF le step [symmetric] _ True] Inl by simp
        have "retryLoop E fc ui f m a w = (fst ?next, Suc (fst (snd ?next)), snd (snd ?next))"
          using le step Inl True
          by (subst retryLoop.simps) (simp split: prod.splits)
        with ih True show ?thesis by simp
      qed
    qed
  qed
qed

lemma retry_twice_then_success:
  assumes a1: "compressSingleFile E fc ui f w0 = (Inl e1, w1)"
    and a2: "compressSingleFile E fc ui f (log E (retryMessage 0) w1) = (Inl e2, w2)"
    and a3: "compressSingleFile E fc ui f (log E (retryMessage 1) w2) = (Inr r, w3)"
  shows "compressSingleFileWithRetry E fc ui f (Some 2) w0 = (Inr (Some r), 3, w3)"
    and "compressSingleFileWithRetry E fc ui f (Some 1) w0 = (Inl e2, 2, w2)"
proof -
  have third: "retryLoop E fc ui f 2 2 (log E (retryMessage 1) w2) = (Inr (Some r), 1, w3)"
    using a3 by (subst retryLoop.simps) simp
  have second: "retryLoop E fc ui f 2 1 (log E (retryMessage 0) w1) = (Inr (Some r), 2, w3)"
    using a2 third by (subst retryLoop.simps) simp
  have first: "retryLoop E fc ui f 2 0 w0 = (Inr (Some r), 3, w3)"
    using a1 second by (subst retryLoop.simps) simp
  show "compressSingleFileWithRetry E fc ui f (Some 2) w0 = (Inr (Some r), 3, w3)"
    using first by (simp add: compressSingleFileWithRetry_def)
  have last: "retryLoop E fc ui f 1 1 (log E (retryMessage 0) w1) = (Inl e2, 1, w2)"
    using a2 by (subst retryLoop.simps) simp
  have "retryLoop E fc ui f 1 0 w0 = (Inl e2, 2, w2)"
    using a1 last by (subst retryLoop.simps) simp
  then show "compressSingleFileWithRetry E fc ui f (Some 1) w0 = (Inl e2, 2, w2)"
    by (simp add: compressSingleFileWithRetry_def)
qed

text \<open>
  Claim C4. When the job fails on the first two attempts and succeeds on the third (each
  attempt starting in the state the one before left, after the warning is logged), then
  with \<open>maxRetries = 2\<close> the retrying operation returns the third attempt's result
  after 3 attempts, and with \<open>maxRetries = 1\<close> it throws the second attempt's error
  after exactly 2 attempts. For every \<open>maxRetries\<close> (2 when omitted) the number of
  attempts is at most \<open>maxRetries + 1\<close>, and 0 when that is negative.
\<close>

theorem retry_attempts_bounded:
  "(let a1 = compressSingleFile E fc ui f w0;
        a2 = compressSingleFile E fc ui f (log E (retryMessage 0) (snd a1));
        a3 = compressSingleFile E fc ui f (log E (retryMessage 1) (snd a2))
    in isl (fst a1) \<and> isl (fst a2) \<and> \<not> isl (fst a3) \<longrightarrow>
         compressSingleFileWithRetry E fc ui f (Some 2) w0
           = (Inr (Some (projr (fst a3))), 3, snd a3)
       \<and> compressSingleFileWithRetry E fc ui f (Some 1) w0
           = (Inl (projl (fst a2)), 2, snd a2))
   \<and> int (fst (snd (compressSingleFileWithRetry E fc ui f m w)))
        \<le> max 0 ((case m of None \<Rightarrow> 2 | Some k \<Rightarrow> k) + 1)"
proof (rule conjI)
  show "int (fst (snd (compressSingleFileWithRetry E fc ui f m w)))
        \<le> max 0 ((case m of None \<Rightarrow> 2 | Some k \<Rightarrow> k) + 1)"
    using retryLoop_attempts [of E fc ui f "case m of None \<Rightarrow> 2 | Some k \<Rightarrow> k" 0 w]
    by (simp add: compressSingleFileWithRetry_def)
next
  define a1 where "a1 = compressSingleFile E fc ui f w0"
  define a2 where "a2 = compressSingleFile E fc ui f (log E (retryMessage 0) (snd a1))"
  define a3 where "a3 = compressSingleFile E fc ui f (log E (retryMessage 1) (snd a2))"
  have "isl (fst a1) \<and> isl (fst a2) \<and> \<not> isl (fst a3) \<longrightarrow>
         compressSingleFileWithRetry E fc ui f (Some 2) w0
           = (Inr (Some (projr (fst a3))), 3, snd a3)
       \<and> compressSingleFileWithRetry E fc ui f (Some 1) w0
           = (Inl (projl (fst a2)), 2, snd a2)"
  proof
    assume h: "isl (fst a1) \<and> isl (fst a2) \<and> \<not> isl (fst a3)"
    have e1: "compressSingleFile E fc ui f w0 = (Inl (projl (fst a1)), snd a1)"
      using h by (simp add: a1_def prod_eq_iff)
    have e2: "compressSingleFile E fc ui f (log E (retryMessage 0) (snd a1))
                = (Inl (projl (fst a2)), snd a2)"
      using h by (simp add: a2_def prod_eq_iff)
    have e3: "compressSingleFile E fc ui f (log E (retryMessage 1) (snd a2))
                = (Inr (projr (fst a3)), snd a3)"
      using h by (simp add: a3_def prod_eq_iff)
    from retry_twice_then_success [OF e1 e2 e3]
    show "compressSingleFileWithRetry E fc ui f (Some 2) w0
           = (Inr (Some (projr (fst a3))), 3, snd a3)
       \<and> compressSingleFileWithRetry E fc ui f (Some 1) w0
           = (Inl (projl (fst a2)), 2, snd a2)"
      by simp
  qed
  then show "let a1 = compressSingleFile E fc ui f w0;
        a2 = compressSingleFile E fc ui f (log E (retryMessage 0) (snd a1));
        a3 = compressSingleFile E fc ui f (log E (retryMessage 1) (snd a2))
    in isl (fst a1) \<and> isl (fst a2) \<and> \<not> isl (fst a3) \<longrightarrow>
         compressSingleFileWithRetry E fc ui f (Some 2) w0
           = (Inr (Some (projr (fst a3))), 3, snd a3)
       \<and> compressSingleFileWithRetry E fc ui f (Some 1) w0
           = (Inl (projl (fst a2)), 2, snd a2)"
    unfolding Let_def a1_def a2_def a3_def .
qed

theorem retry_attempts_bounded_witness:
  "isl (fst (compressSingleFile stub formats toMp3 song failsTwice))
   \<and> fst (compressSingleFileWithRetry stub formats toMp3 song (Some 2) failsTwice)
       = Inr (Some \<lparr>blob = \<lparr>blob_data = [0], blob_type = ''audio/mpeg''\<rparr>,
                    url = ''blob:stub'', filename = ''song_converted.mp3''\<rparr>)
   \<and> fst (snd (compressSingleFileWithRetry stub formats toMp3 song (Some 2) failsTwice)) = 3
   \<and> fst (compressSingleFileWithRetry stub formats toMp3 song (Some 1) failsTwice)
       = Inl (Error ''exec failed'')
   \<and> fst (snd (compressSingleFileWithRetry stub formats toMp3 song (Some 1) failsTwice)) = 2"
proof -
  define a1 where "a1 = compressSingleFile stub formats toMp3 song failsTwice"
  define a2 where
    "a2 = compressSingleFile stub formats toMp3 song (log stub (retryMessage 0) (snd a1))"
  define a3 where
    "a3 = compressSingleFile stub formats toMp3 song (log stub (retryMessage 1) (snd a2))"
  have h1: "isl (fst a1)" unfolding a1_def by code_simp
  have h2: "isl (fst a2)" unfolding a2_def a1_def by code_simp
  have h3: "\<not> isl (fst a3)" unfolding a3_def a2_def a1_def by code_simp
  have r3: "projr (fst a3) = \<lparr>blob = \<lparr>blob_data = [0], blob_type = ''audio/mpeg''\<rparr>,
                    url = ''blob:stub'', filename = ''song_converted.mp3''\<rparr>"
    unfolding a3_def a2_def a1_def by code_simp
  have r2: "projl (fst a2) = Error ''exec failed''"
    unfolding a2_def a1_def by code_simp
  from retry_attempts_bounded [of stub formats toMp3 song failsTwice None failsTwice]
  have "compressSingleFileWithRetry stub formats toMp3 song (Some 2) failsTwice
           = (Inr (Some (projr (fst a3))), 3, snd a3)
       \<and> compressSingleFileWithRetry stub formats toMp3 song (Some 1) failsTwice
           = (Inl (projl (fst a2)), 2, snd a2)"
    using h1 h2 h3 unfolding Let_def a1_def a2_def a3_def by blast
  with h1 r3 r2 show ?thesis unfolding a1_def by simp
qed

end
